theory Spec2Isabelle
  imports Complex_Main "HOL-Library.AList"
begin

section \<open>Python values, dictionaries and errors\<close>

text \<open>
  Numbers of the configuration and of the engines (Python \<open>int\<close> and \<open>float\<close>, combined
  with true division) are modelled as \<open>real\<close>. A naive \<open>datetime\<close> is the number of
  microseconds since a fixed epoch; \<open>datetime.utcnow()\<close> is the explicit parameter
  \<open>now\<close> of every function that reads the clock.

  A Python \<open>dict\<close> is an association list in insertion order; the keys of a
  dictionary are pairwise distinct.
\<close>

datatype pyval = PNone | PBool bool | PStr string | PDate int

datatype error =
    ZeroDivisionError
  | TypeError
  | KeyError
  | AttributeError
  | FileNotFoundError
  | YAMLError
  | ValidationError

type_synonym 'v dict = "(string \<times> 'v) list"

text \<open>Truth value of a Python object: \<open>None\<close>, \<open>False\<close> and the empty string are falsy.\<close>

fun truthy :: "pyval \<Rightarrow> bool" where
  "truthy PNone = False"
| "truthy (PBool b) = b"
| "truthy (PStr s) = (s \<noteq> [])"
| "truthy (PDate d) = True"

text \<open>\<open>d.get(k, default)\<close>\<close>

definition dict_get :: "'v dict \<Rightarrow> string \<Rightarrow> 'v \<Rightarrow> 'v" where
  "dict_get d k dflt = (case map_of d k of None \<Rightarrow> dflt | Some v \<Rightarrow> v)"

text \<open>\<open>o.get(field, default)\<close> on an optional field of a configuration section.\<close>

definition opt_get :: "'a option \<Rightarrow> 'a \<Rightarrow> 'a" where
  "opt_get x dflt = (case x of None \<Rightarrow> dflt | Some v \<Rightarrow> v)"

text \<open>
  \<open>(a - b).days\<close> of a \<open>timedelta\<close>: the difference is normalised so that the seconds
  and microseconds are non-negative, hence the days are the floor of the quotient.
\<close>

definition timedelta_days :: "int \<Rightarrow> int" where
  "timedelta_days delta = delta div 86400000000"

section \<open>Configuration document\<close>

text \<open>
  The YAML mapping read by the three engines. Every section and every field of a section
  is optional: the engines read them with \<open>.get(key, default)\<close>, except the colour
  bands, which are indexed directly. \<open>None\<close> stands for an absent key.
\<close>

record weight_config =
  wc_weight :: "real option"
  wc_description :: "string option"

record recency_config =
  rc_days_decay :: "real option"
  rc_max_score :: "real option"
  rc_description :: "string option"

record intent_thresholds =
  it_high :: "real option"
  it_medium :: "real option"

record score_color =
  sc_min :: "real option"
  sc_max :: "real option"
  sc_color :: "string option"
  sc_label :: "string option"

record confidence_factor =
  cf_name :: "string option"
  cf_weight :: "real option"

record action_config =
  ac_action :: "string option"
  ac_urgency :: "string option"
  ac_probability_label :: "string option"

record prob_config =
  pc_probability :: "real option"

record config =
  cfg_weights :: "weight_config dict option"
  cfg_recency :: "recency_config option"
  cfg_intent_thresholds :: "intent_thresholds option"
  cfg_score_colors :: "score_color dict option"
  cfg_confidence_factors :: "confidence_factor list option"
  cfg_recommended_actions :: "action_config dict option"
  cfg_conversion_probabilities :: "prob_config dict option"

text \<open>The empty dictionary \<open>{}\<close> used as default for a missing section.\<close>

definition empty_weight_config :: weight_config where
  "empty_weight_config = \<lparr>wc_weight = None, wc_description = None\<rparr>"

definition empty_recency_config :: recency_config where
  "empty_recency_config = \<lparr>rc_days_decay = None, rc_max_score = None, rc_description = None\<rparr>"

definition empty_intent_thresholds :: intent_thresholds where
  "empty_intent_thresholds = \<lparr>it_high = None, it_medium = None\<rparr>"

definition empty_action_config :: action_config where
  "empty_action_config = \<lparr>ac_action = None, ac_urgency = None, ac_probability_label = None\<rparr>"

definition empty_prob_config :: prob_config where
  "empty_prob_config = \<lparr>pc_probability = None\<rparr>"

section \<open>Scoring engine (\<open>engines/scoring_engine.py\<close>)\<close>

record scoring_engine =
  se_config :: config
  se_weights :: "weight_config dict"
  se_recency_config :: recency_config

text \<open>
  \<open>_load_config\<close> and \<open>__init__\<close>. The file system is a map from paths to file
  contents and \<open>yaml.safe_load\<close> is a parameter: it fails on malformed text and
  otherwise yields a document, which is a mapping only if the text denotes one.
  Any exception of \<open>open\<close> or \<open>safe_load\<close> is logged and raised again; \<open>.get\<close> on
  a document that is not a mapping raises \<open>AttributeError\<close>.
\<close>

datatype yaml_doc = YNull | YScalar string | YSequence | YMapping config

definition settings_config_path :: string where
  "settings_config_path = ''./config/scoring_weights.yaml''"

definition load_config ::
  "(string \<rightharpoonup> string) \<Rightarrow> (string \<Rightarrow> error + yaml_doc) \<Rightarrow> string \<Rightarrow> error + yaml_doc" where
  "load_config fs safe_load config_path =
     (case fs config_path of
        None \<Rightarrow> Inl FileNotFoundError
      | Some text \<Rightarrow> safe_load text)"

definition init_scoring_engine ::
  "(string \<rightharpoonup> string) \<Rightarrow> (string \<Rightarrow> error + yaml_doc) \<Rightarrow> string option
     \<Rightarrow> error + scoring_engine" where
  "init_scoring_engine fs safe_load config_path =
     (case load_config fs safe_load (opt_get config_path settings_config_path) of
        Inl e \<Rightarrow> Inl e
      | Inr (YMapping cfg) \<Rightarrow>
          Inr \<lparr>se_config = cfg,
               se_weights = opt_get (cfg_weights cfg) [],
               se_recency_config = opt_get (cfg_recency cfg) empty_recency_config\<rparr>
      | Inr _ \<Rightarrow> Inl AttributeError)"

record contribution =
  feature :: string
  impact :: real
  reason :: string

record scoring_result =
  sr_score :: real
  sr_contributions :: "contribution list"
  sr_raw_scores :: "real dict"
  sr_recency_score :: real

text \<open>The first loop of \<open>score\<close>: accumulates \<open>raw_scores\<close>, \<open>total_raw_score\<close>, \<open>total_weight\<close>.\<close>

fun weighted_loop ::
  "weight_config dict \<Rightarrow> pyval dict \<Rightarrow> real dict \<times> real \<times> real \<Rightarrow> real dict \<times> real \<times> real" where
  "weighted_loop [] lead_data acc = acc"
| "weighted_loop ((feat, weight_cfg) # rest) lead_data (raw_scores, total_raw_score, total_weight) =
     (let weight = opt_get (wc_weight weight_cfg) 0 in
      if truthy (dict_get lead_data feat (PBool False))
      then weighted_loop rest lead_data
             (AList.update feat weight raw_scores, total_raw_score + weight, total_weight + weight)
      else weighted_loop rest lead_data
             (AList.update feat 0 raw_scores, total_raw_score, total_weight + weight))"

definition calculate_recency_score :: "recency_config \<Rightarrow> int \<Rightarrow> pyval \<Rightarrow> error + real" where
  "calculate_recency_score rc now enquiry_date =
     (case enquiry_date of
        PNone \<Rightarrow> Inr 0
      | PDate d \<Rightarrow>
          (let days_since = timedelta_days (now - d);
               days_decay = opt_get (rc_days_decay rc) 15;
               max_score = opt_get (rc_max_score rc) 10
           in if days_decay = 0 then Inl ZeroDivisionError
              else Inr (max 0 ((days_decay - real_of_int days_since) / days_decay * max_score)))
      | _ \<Rightarrow> Inl TypeError)"

text \<open>The second loop of \<open>score\<close>: one entry per feature with a positive raw score.\<close>

fun contribution_loop ::
  "weight_config dict \<Rightarrow> real \<Rightarrow> real dict \<Rightarrow> contribution list \<Rightarrow> error + contribution list" where
  "contribution_loop weights total_weight [] contributions_detail = Inr contributions_detail"
| "contribution_loop weights total_weight ((feat, raw_score) # rest) contributions_detail =
     (if raw_score > 0
      then if total_weight = 0 then Inl ZeroDivisionError
           else contribution_loop weights total_weight rest
                  (contributions_detail @
                    [\<lparr>feature = feat,
                      impact = raw_score / total_weight * 100,
                      reason = opt_get (wc_description
                                 (dict_get weights feat empty_weight_config)) ''''\<rparr>])
      else contribution_loop weights total_weight rest contributions_detail)"

definition recency_contribution ::
  "recency_config \<Rightarrow> real \<Rightarrow> real \<Rightarrow> contribution list \<Rightarrow> error + contribution list" where
  "recency_contribution rc total_weight recency_score contributions_detail =
     (if recency_score > 0
      then if total_weight = 0 then Inl ZeroDivisionError
           else Inr (contributions_detail @
                  [\<lparr>feature = ''recency'',
                    impact = recency_score / total_weight * 100,
                    reason = opt_get (rc_description rc) ''''\<rparr>])
      else Inr contributions_detail)"

text \<open>
  \<open>list.sort(key=lambda x: x['impact'], reverse=True)\<close>: Python's sort is stable, also
  with \<open>reverse=True\<close>. Modelled as insertion sort: each element, taken from the right,
  is put in front of the first element whose impact is not strictly greater.
\<close>

fun insert_desc :: "contribution \<Rightarrow> contribution list \<Rightarrow> contribution list" where
  "insert_desc c [] = [c]"
| "insert_desc c (d # ds) = (if impact d > impact c then d # insert_desc c ds else c # d # ds)"

definition sort_by_impact_desc :: "contribution list \<Rightarrow> contribution list" where
  "sort_by_impact_desc cs = foldr insert_desc cs []"

text \<open>The contribution list of \<open>score\<close> in encounter order, before the sort.\<close>

definition contributions_detail ::
  "scoring_engine \<Rightarrow> real \<Rightarrow> real dict \<Rightarrow> real \<Rightarrow> error + contribution list" where
  "contributions_detail eng total_weight raw_scores recency_score =
     (case contribution_loop (se_weights eng) total_weight raw_scores [] of
        Inl e \<Rightarrow> Inl e
      | Inr cd \<Rightarrow> recency_contribution (se_recency_config eng) total_weight recency_score cd)"

definition score :: "scoring_engine \<Rightarrow> int \<Rightarrow> pyval dict \<Rightarrow> error + scoring_result" where
  "score eng now lead_data =
     (case weighted_loop (se_weights eng) lead_data ([], 0, 0) of
        (raw_scores, total_raw_score0, total_weight0) \<Rightarrow>
     (case calculate_recency_score (se_recency_config eng) now
             (dict_get lead_data ''enquiry_date'' PNone) of
        Inl e \<Rightarrow> Inl e
      | Inr recency_score \<Rightarrow>
          (let total_raw_score = total_raw_score0 + recency_score;
               total_weight = total_weight0 + opt_get (rc_max_score (se_recency_config eng)) 10;
               normalized_score =
                 (if total_weight > 0 then min 100 (total_raw_score / total_weight * 100) else 0)
           in case contributions_detail eng total_weight raw_scores recency_score of
                Inl e \<Rightarrow> Inl e
              | Inr cd \<Rightarrow>
                  Inr \<lparr>sr_score = normalized_score,
                       sr_contributions = sort_by_impact_desc cd,
                       sr_raw_scores = raw_scores,
                       sr_recency_score = recency_score\<rparr>)))"

section \<open>Next-action engine (\<open>engines/next_action_engine.py\<close>)\<close>

definition get_action_key :: "real \<Rightarrow> string" where
  "get_action_key s =
     (if s \<ge> 80 then ''score_80_100''
      else if s \<ge> 60 then ''score_60_79''
      else if s \<ge> 40 then ''score_40_59''
      else ''score_below_40'')"

record next_action_engine =
  na_config :: config
  na_actions :: "action_config dict"
  na_probabilities :: "prob_config dict"

text \<open>
  The recommendation of \<open>get_action\<close>. Its \<open>rationale\<close> entry is a formatted sentence
  chosen by the urgency; it reads nothing else, cannot raise and is left out.
\<close>

record recommendation =
  rec_action :: string
  rec_urgency :: string
  rec_probability_label :: string
  rec_probability :: real
  rec_score_bracket :: string

definition get_action :: "next_action_engine \<Rightarrow> real \<Rightarrow> recommendation" where
  "get_action eng s =
     (let action_key = get_action_key s;
          action_cfg = dict_get (na_actions eng) action_key empty_action_config;
          prob_cfg = dict_get (na_probabilities eng) action_key empty_prob_config
      in \<lparr>rec_action = opt_get (ac_action action_cfg) ''No action'',
          rec_urgency = opt_get (ac_urgency action_cfg) ''Low'',
          rec_probability_label = opt_get (ac_probability_label action_cfg) ''<20%'',
          rec_probability = opt_get (pc_probability prob_cfg) 0,
          rec_score_bracket = action_key\<rparr>)"

section \<open>Explanation engine (\<open>engines/explanation_engine.py\<close>)\<close>

record explanation_engine =
  ee_config :: config
  ee_intent_thresholds :: intent_thresholds
  ee_score_colors :: "score_color dict"

definition determine_intent_level :: "explanation_engine \<Rightarrow> real \<Rightarrow> string" where
  "determine_intent_level eng s =
     (let high_threshold = opt_get (it_high (ee_intent_thresholds eng)) 80;
          medium_threshold = opt_get (it_medium (ee_intent_thresholds eng)) 60
      in if s \<ge> high_threshold then ''High''
         else if s \<ge> medium_threshold then ''Medium''
         else ''Low'')"

text \<open>
  \<open>_calculate_confidence\<close>. The optional \<open>lead_data\<close> is \<open>None\<close> or a dictionary; an
  empty dictionary is falsy. Subtracting anything but a \<open>datetime\<close> from
  \<open>datetime.utcnow()\<close> raises \<open>TypeError\<close>.
\<close>

definition data_completeness :: "pyval dict option \<Rightarrow> real" where
  "data_completeness lead_data =
     (case lead_data of
        None \<Rightarrow> 0.6
      | Some ld \<Rightarrow>
          if ld \<noteq> []
          then (let filled_fields = length (filter (\<lambda>(k, v). truthy v) ld);
                    total_fields = length ld
                in if total_fields > 0 then real filled_fields / real total_fields else 0.6)
          else 0.6)"

definition signal_recency :: "int \<Rightarrow> pyval dict option \<Rightarrow> error + real" where
  "signal_recency now lead_data =
     (case lead_data of
        None \<Rightarrow> Inr 0.8
      | Some ld \<Rightarrow>
          if ld \<noteq> []
          then (case map_of ld ''enquiry_date'' of
                  None \<Rightarrow> Inr 0.8
                | Some v \<Rightarrow>
                    if truthy v
                    then (case v of
                            PDate d \<Rightarrow>
                              (let days_since = timedelta_days (now - d)
                               in Inr (max 0 (1 - real_of_int days_since / 30)))
                          | _ \<Rightarrow> Inl TypeError)
                    else Inr 0.8)
          else Inr 0.8)"

definition calculate_confidence ::
  "explanation_engine \<Rightarrow> int \<Rightarrow> real \<Rightarrow> contribution list \<Rightarrow> pyval dict option \<Rightarrow> error + real" where
  "calculate_confidence eng now s contributions lead_data =
     (let confidence_factors = opt_get (cfg_confidence_factors (ee_config eng)) [];
          total_weight = sum_list (map (\<lambda>f. opt_get (cf_weight f) 0) confidence_factors);
          completeness = data_completeness lead_data
      in case signal_recency now lead_data of
           Inl e \<Rightarrow> Inl e
         | Inr recency \<Rightarrow>
             (let signal_diversity = min 1 (real (length contributions) / 5);
                  confidence = completeness * 0.3 + recency * 0.4 + signal_diversity * 0.3
              in Inr (max 0 (min 100 (confidence * 100)))))"

text \<open>
  \<open>_get_score_color\<close>: the first band, in declaration order, that contains the score.
  The bounds are indexed (\<open>config['min']\<close>), so a band without them raises \<open>KeyError\<close>;
  the chained comparison reads \<open>max\<close> only when \<open>min <= score\<close>.
\<close>

fun get_score_color :: "score_color dict \<Rightarrow> real \<Rightarrow> error + string \<times> string" where
  "get_score_color [] s = Inr (''#6b7280'', ''Unknown'')"
| "get_score_color ((intent_type, band) # rest) s =
     (case sc_min band of
        None \<Rightarrow> Inl KeyError
      | Some lo \<Rightarrow>
          if lo \<le> s
          then (case sc_max band of
                  None \<Rightarrow> Inl KeyError
                | Some hi \<Rightarrow>
                    if s \<le> hi
                    then (case sc_color band of
                            None \<Rightarrow> Inl KeyError
                          | Some col \<Rightarrow>
                              (case sc_label band of
                                 None \<Rightarrow> Inl KeyError
                               | Some lab \<Rightarrow> Inr (col, lab)))
                    else get_score_color rest s)
          else get_score_color rest s)"

text \<open>
  \<open>round(x, 1)\<close> on the idealised numbers: to the nearest multiple of one tenth, a tie
  going to the even one.
\<close>

definition round_half_even :: "real \<Rightarrow> int" where
  "round_half_even x =
     (let f = \<lfloor>x\<rfloor>; d = x - of_int f
      in if d < 1 / 2 then f else if d > 1 / 2 then f + 1 else if even f then f else f + 1)"

definition round1 :: "real \<Rightarrow> real" where
  "round1 x = of_int (round_half_even (x * 10)) / 10"

text \<open>
  The explanation of \<open>explain_score\<close>. Its \<open>summary\<close> entry is a formatted sentence built
  from the score, the intent level and the first contribution; it cannot raise and is
  left out.
\<close>

record explanation =
  ex_score :: real
  ex_intent_level :: string
  ex_feature_contributions :: "contribution list"
  ex_confidence :: real
  ex_color :: "string \<times> string"

definition explain_score ::
  "explanation_engine \<Rightarrow> int \<Rightarrow> real \<Rightarrow> contribution list \<Rightarrow> pyval dict option
     \<Rightarrow> error + explanation" where
  "explain_score eng now s contributions lead_data =
     (let intent_level = determine_intent_level eng s
      in case calculate_confidence eng now s contributions lead_data of
           Inl e \<Rightarrow> Inl e
         | Inr confidence \<Rightarrow>
             (let formatted_contributions =
                    map (\<lambda>c. \<lparr>feature = feature c, impact = round1 (impact c), reason = reason c\<rparr>)
                      (take 5 contributions)
              in case get_score_color (ee_score_colors eng) s of
                   Inl e \<Rightarrow> Inl e
                 | Inr color \<Rightarrow>
                     Inr \<lparr>ex_score = round1 s,
                          ex_intent_level = intent_level,
                          ex_feature_contributions = formatted_contributions,
                          ex_confidence = round1 confidence,
                          ex_color = color\<rparr>))"

section \<open>Lead service (\<open>services/lead_service.py\<close>, \<open>models/\<close>)\<close>

text \<open>\<open>LeadInput\<close>, the validated request, and its \<open>model_dump()\<close>.\<close>

record lead_input =
  li_email :: string
  li_name :: string
  li_company :: "string option"
  li_demo_requested :: bool
  li_registration :: bool
  li_enquiry_call_whatsapp :: bool
  li_enquiry_date :: "int option"
  li_pricing_compared :: bool
  li_lead_through_events :: bool
  li_lead_through_call :: bool
  li_lead_through_referral :: bool

definition model_dump :: "lead_input \<Rightarrow> pyval dict" where
  "model_dump li =
     [(''email'', PStr (li_email li)),
      (''name'', PStr (li_name li)),
      (''company'', (case li_company li of None \<Rightarrow> PNone | Some c \<Rightarrow> PStr c)),
      (''demo_requested'', PBool (li_demo_requested li)),
      (''registration'', PBool (li_registration li)),
      (''enquiry_call_whatsapp'', PBool (li_enquiry_call_whatsapp li)),
      (''enquiry_date'', (case li_enquiry_date li of None \<Rightarrow> PNone | Some d \<Rightarrow> PDate d)),
      (''pricing_compared'', PBool (li_pricing_compared li)),
      (''lead_through_events'', PBool (li_lead_through_events li)),
      (''lead_through_call'', PBool (li_lead_through_call li)),
      (''lead_through_referral'', PBool (li_lead_through_referral li))]"

text \<open>
  A row of the table \<open>leads\<close>. The column \<open>feature_contributions\<close> holds
  \<open>json.dumps(contributions)\<close>, a text determined by the list; the row keeps the list.
\<close>

record lead =
  l_id :: nat
  l_email :: string
  l_name :: string
  l_company :: "string option"
  l_demo_requested :: bool
  l_registration :: bool
  l_enquiry_call_whatsapp :: bool
  l_enquiry_date :: "int option"
  l_pricing_compared :: bool
  l_lead_through_events :: bool
  l_lead_through_call :: bool
  l_lead_through_referral :: bool
  l_score :: real
  l_intent_level :: string
  l_confidence :: real
  l_recommended_action :: string
  l_feature_contributions :: "contribution list"
  l_created_at :: int
  l_updated_at :: int

text \<open>The table and the next value of its primary-key sequence.\<close>

record db_state =
  db_leads :: "lead list"
  db_next_id :: nat

text \<open>
  \<open>setattr(existing_lead, key, value)\<close> for the keys of a dumped \<open>LeadInput\<close>. Any
  other key, or a value that is not of the column's type, would set no column.
\<close>

fun setattr_lead :: "lead \<Rightarrow> string \<times> pyval \<Rightarrow> lead" where
  "setattr_lead l (k, v) =
     (if k = ''email'' then (case v of PStr x \<Rightarrow> l\<lparr>l_email := x\<rparr> | _ \<Rightarrow> l)
      else if k = ''name'' then (case v of PStr x \<Rightarrow> l\<lparr>l_name := x\<rparr> | _ \<Rightarrow> l)
      else if k = ''company''
        then (case v of PStr x \<Rightarrow> l\<lparr>l_company := Some x\<rparr> | PNone \<Rightarrow> l\<lparr>l_company := None\<rparr> | _ \<Rightarrow> l)
      else if k = ''demo_requested''
        then (case v of PBool x \<Rightarrow> l\<lparr>l_demo_requested := x\<rparr> | _ \<Rightarrow> l)
      else if k = ''registration''
        then (case v of PBool x \<Rightarrow> l\<lparr>l_registration := x\<rparr> | _ \<Rightarrow> l)
      else if k = ''enquiry_call_whatsapp''
        then (case v of PBool x \<Rightarrow> l\<lparr>l_enquiry_call_whatsapp := x\<rparr> | _ \<Rightarrow> l)
      else if k = ''enquiry_date''
        then (case v of PDate x \<Rightarrow> l\<lparr>l_enquiry_date := Some x\<rparr>
                      | PNone \<Rightarrow> l\<lparr>l_enquiry_date := None\<rparr> | _ \<Rightarrow> l)
      else if k = ''pricing_compared''
        then (case v of PBool x \<Rightarrow> l\<lparr>l_pricing_compared := x\<rparr> | _ \<Rightarrow> l)
      else if k = ''lead_through_events''
        then (case v of PBool x \<Rightarrow> l\<lparr>l_lead_through_events := x\<rparr> | _ \<Rightarrow> l)
      else if k = ''lead_through_call''
        then (case v of PBool x \<Rightarrow> l\<lparr>l_lead_through_call := x\<rparr> | _ \<Rightarrow> l)
      else if k = ''lead_through_referral''
        then (case v of PBool x \<Rightarrow> l\<lparr>l_lead_through_referral := x\<rparr> | _ \<Rightarrow> l)
      else l)"

text \<open>\<open>query(LeadModel).filter(LeadModel.email == email).first()\<close>\<close>

definition find_by_email :: "db_state \<Rightarrow> string \<Rightarrow> lead option" where
  "find_by_email db email = find (\<lambda>l. l_email l = email) (db_leads db)"

text \<open>The flush of the one loaded row that was modified: the first row of that email.\<close>

fun update_first :: "string \<Rightarrow> (lead \<Rightarrow> lead) \<Rightarrow> lead list \<Rightarrow> lead list" where
  "update_first email f [] = []"
| "update_first email f (l # ls) =
     (if l_email l = email then f l # ls else l # update_first email f ls)"

record lead_service =
  ls_scoring_engine :: scoring_engine
  ls_explanation_engine :: explanation_engine
  ls_action_engine :: next_action_engine

text \<open>
  The first half of \<open>score_lead\<close>: score, explain, recommend. An exception of an engine
  leaves the method before the table is touched.
\<close>

definition run_engines ::
  "lead_service \<Rightarrow> int \<Rightarrow> lead_input \<Rightarrow> error + scoring_result \<times> explanation \<times> recommendation" where
  "run_engines svc now lead_data =
     (let lead_dict = model_dump lead_data
      in case score (ls_scoring_engine svc) now lead_dict of
           Inl e \<Rightarrow> Inl e
         | Inr scoring_result \<Rightarrow>
             (case explain_score (ls_explanation_engine svc) now (sr_score scoring_result)
                     (sr_contributions scoring_result) (Some lead_dict) of
                Inl e \<Rightarrow> Inl e
              | Inr explanation \<Rightarrow>
                  Inr (scoring_result, explanation,
                       get_action (ls_action_engine svc) (sr_score scoring_result))))"

text \<open>The second half up to \<open>commit\<close>: update the existing row in place, or insert.\<close>

definition persist_lead ::
  "db_state \<Rightarrow> int \<Rightarrow> lead_input \<Rightarrow> scoring_result \<times> explanation \<times> recommendation
     \<Rightarrow> db_state \<times> lead" where
  "persist_lead db now lead_data r =
     (case r of (scoring_result, explanation, action) \<Rightarrow>
      (case find_by_email db (li_email lead_data) of
         Some existing_lead \<Rightarrow>
           (let upd = (\<lambda>l. (foldl setattr_lead l (model_dump lead_data))
                             \<lparr>l_score := sr_score scoring_result,
                              l_intent_level := ex_intent_level explanation,
                              l_confidence := ex_confidence explanation,
                              l_recommended_action := rec_action action,
                              l_feature_contributions := sr_contributions scoring_result,
                              l_updated_at := now\<rparr>)
            in (db\<lparr>db_leads := update_first (li_email lead_data) upd (db_leads db)\<rparr>,
                upd existing_lead))
       | None \<Rightarrow>
           (let lead_model =
                  \<lparr>l_id = db_next_id db,
                   l_email = li_email lead_data,
                   l_name = li_name lead_data,
                   l_company = li_company lead_data,
                   l_demo_requested = li_demo_requested lead_data,
                   l_registration = li_registration lead_data,
                   l_enquiry_call_whatsapp = li_enquiry_call_whatsapp lead_data,
                   l_enquiry_date = li_enquiry_date lead_data,
                   l_pricing_compared = li_pricing_compared lead_data,
                   l_lead_through_events = li_lead_through_events lead_data,
                   l_lead_through_call = li_lead_through_call lead_data,
                   l_lead_through_referral = li_lead_through_referral lead_data,
                   l_score = sr_score scoring_result,
                   l_intent_level = ex_intent_level explanation,
                   l_confidence = ex_confidence explanation,
                   l_recommended_action = rec_action action,
                   l_feature_contributions = sr_contributions scoring_result,
                   l_created_at = now,
                   l_updated_at = now\<rparr>
            in (db\<lparr>db_leads := db_leads db @ [lead_model], db_next_id := Suc (db_next_id db)\<rparr>,
                lead_model))))"

text \<open>
  The response, built after the commit. \<open>FeatureContribution\<close> and \<open>ScoreExplanation\<close>
  validate their fields (\<open>ge=0, le=100\<close>) and raise otherwise.
\<close>

record score_explanation =
  sx_score :: real
  sx_intent_level :: string
  sx_feature_contributions :: "contribution list"
  sx_confidence :: real
  sx_recommended_action :: string

record response =
  resp_lead :: lead
  resp_explanation :: score_explanation
  resp_action :: recommendation

definition build_response ::
  "lead \<Rightarrow> explanation \<Rightarrow> recommendation \<Rightarrow> error + response" where
  "build_response lead_model explanation action =
     (if list_all (\<lambda>c. 0 \<le> impact c \<and> impact c \<le> 100) (ex_feature_contributions explanation)
         \<and> 0 \<le> ex_score explanation \<and> ex_score explanation \<le> 100
         \<and> 0 \<le> ex_confidence explanation \<and> ex_confidence explanation \<le> 100
      then Inr \<lparr>resp_lead = lead_model,
                resp_explanation =
                  \<lparr>sx_score = ex_score explanation,
                   sx_intent_level = ex_intent_level explanation,
                   sx_feature_contributions = ex_feature_contributions explanation,
                   sx_confidence = ex_confidence explanation,
                   sx_recommended_action = rec_action action\<rparr>,
                resp_action = action\<rparr>
      else Inl ValidationError)"

text \<open>
  \<open>score_lead\<close>: the table after the call and what the call returns or raises. One call
  reads the clock once.
\<close>

definition score_lead ::
  "lead_service \<Rightarrow> int \<Rightarrow> db_state \<Rightarrow> lead_input \<Rightarrow> db_state \<times> (error + response)" where
  "score_lead svc now db lead_data =
     (case run_engines svc now lead_data of
        Inl e \<Rightarrow> (db, Inl e)
      | Inr (scoring_result, explanation, action) \<Rightarrow>
          (case persist_lead db now lead_data (scoring_result, explanation, action) of
             (db', lead_model) \<Rightarrow> (db', build_response lead_model explanation action)))"

section \<open>Notions of the specification\<close>

text \<open>
  The sum of all configured weights, and the sum of the weights of the features that are
  truthy in the lead data: the ``total weight'' and ``total raw score'' of the
  specification, before the recency component is added.
\<close>

definition feature_weight_total :: "weight_config dict \<Rightarrow> real" where
  "feature_weight_total ws = (\<Sum>(f, wc)\<leftarrow>ws. opt_get (wc_weight wc) 0)"

definition feature_raw_total :: "weight_config dict \<Rightarrow> pyval dict \<Rightarrow> real" where
  "feature_raw_total ws ld =
     (\<Sum>(f, wc)\<leftarrow>ws. if truthy (dict_get ld f (PBool False)) then opt_get (wc_weight wc) 0 else 0)"

text \<open>
  The contribution list of \<open>score\<close> in encounter order, as it stands before the sort: the
  state of \<open>contributions_detail\<close> when the sort is reached.
\<close>

definition encounter_order :: "scoring_engine \<Rightarrow> int \<Rightarrow> pyval dict \<Rightarrow> error + contribution list" where
  "encounter_order eng now lead_data =
     (case weighted_loop (se_weights eng) lead_data ([], 0, 0) of
        (raw_scores, total_raw_score0, total_weight0) \<Rightarrow>
     (case calculate_recency_score (se_recency_config eng) now
             (dict_get lead_data ''enquiry_date'' PNone) of
        Inl e \<Rightarrow> Inl e
      | Inr recency_score \<Rightarrow>
          contributions_detail eng
            (total_weight0 + opt_get (rc_max_score (se_recency_config eng)) 10)
            raw_scores recency_score))"

text \<open>
  The order of the intent tiers: High above Medium above Low.
\<close>

definition tier_rank :: "string \<Rightarrow> nat" where
  "tier_rank t = (if t = ''High'' then 2 else if t = ''Medium'' then 1 else 0)"

text \<open>
  The confidence as the specification words it: a blend with the fixed weights 0.3, 0.4
  and 0.3 of the fraction of truthy fields (0.6 without a feature map), of
  \<open>max(0, 1 - days_since_enquiry / 30)\<close> (0.8 without an enquiry timestamp) and of
  \<open>min(1, contribution_count / 5)\<close>, scaled by 100 and clamped to [0, 100].
\<close>

definition spec_data_completeness :: "pyval dict option \<Rightarrow> real" where
  "spec_data_completeness lead_data =
     (case lead_data of
        None \<Rightarrow> 6 / 10
      | Some ld \<Rightarrow>
          if ld = [] then 6 / 10
          else real (length (filter truthy (map snd ld))) / real (length ld))"

definition enquiry_timestamp :: "pyval dict option \<Rightarrow> int option" where
  "enquiry_timestamp lead_data =
     (case lead_data of
        None \<Rightarrow> None
      | Some ld \<Rightarrow> (case map_of ld ''enquiry_date'' of Some (PDate d) \<Rightarrow> Some d | _ \<Rightarrow> None))"

definition spec_signal_recency :: "int \<Rightarrow> pyval dict option \<Rightarrow> real" where
  "spec_signal_recency now lead_data =
     (case enquiry_timestamp lead_data of
        None \<Rightarrow> 8 / 10
      | Some d \<Rightarrow> max 0 (1 - real_of_int (timedelta_days (now - d)) / 30))"

definition spec_signal_diversity :: "contribution list \<Rightarrow> real" where
  "spec_signal_diversity contributions = min 1 (real (length contributions) / 5)"

definition spec_confidence :: "real \<Rightarrow> real \<Rightarrow> real \<Rightarrow> real" where
  "spec_confidence completeness recency diversity =
     max 0 (min 100 (100 * (3 / 10 * completeness + 4 / 10 * recency + 3 / 10 * diversity)))"

text \<open>
  The lead data hold, under \<open>enquiry_date\<close>, a truthy value that is no timestamp.
\<close>

definition enquiry_not_a_timestamp :: "pyval dict option \<Rightarrow> bool" where
  "enquiry_not_a_timestamp lead_data =
     (case lead_data of
        None \<Rightarrow> False
      | Some ld \<Rightarrow>
          (case map_of ld ''enquiry_date'' of
             None \<Rightarrow> False
           | Some (PDate d) \<Rightarrow> False
           | Some v \<Rightarrow> truthy v))"

text \<open>
  The feature fields and the scoring fields of a stored row (all columns but the key and
  the two timestamps), the same fields as one write of a payload sets them, and the
  number of rows of an email.
\<close>

type_synonym stored =
  "(string \<times> string \<times> string option) \<times>
   (bool \<times> bool \<times> bool \<times> int option \<times> bool \<times> bool \<times> bool \<times> bool) \<times>
   (real \<times> string \<times> real \<times> string \<times> contribution list)"

definition stored_fields :: "lead \<Rightarrow> stored" where
  "stored_fields l =
     ((l_email l, l_name l, l_company l),
      (l_demo_requested l, l_registration l, l_enquiry_call_whatsapp l, l_enquiry_date l,
       l_pricing_compared l, l_lead_through_events l, l_lead_through_call l,
       l_lead_through_referral l),
      (l_score l, l_intent_level l, l_confidence l, l_recommended_action l,
       l_feature_contributions l))"

definition written_fields ::
  "lead_input \<Rightarrow> scoring_result \<times> explanation \<times> recommendation \<Rightarrow> stored" where
  "written_fields li r =
     (case r of (scoring_result, explanation, action) \<Rightarrow>
      ((li_email li, li_name li, li_company li),
       (li_demo_requested li, li_registration li, li_enquiry_call_whatsapp li, li_enquiry_date li,
        li_pricing_compared li, li_lead_through_events li, li_lead_through_call li,
        li_lead_through_referral li),
       (sr_score scoring_result, ex_intent_level explanation, ex_confidence explanation,
        rec_action action, sr_contributions scoring_result)))"

definition rows_of_email :: "db_state \<Rightarrow> string \<Rightarrow> nat" where
  "rows_of_email db email = length (filter (\<lambda>l. l_email l = email) (db_leads db))"

text \<open>
  A file system and a parser to construct the scoring engine on: the default path holds
  a mapping without a \<open>weights\<close> section, one file is empty and one is malformed.
\<close>

definition text_without_weights :: string where
  "text_without_weights = ''recency: {days_decay: 15, max_score: 10}''"

definition config_without_weights :: config where
  "config_without_weights =
     \<lparr>cfg_weights = None,
      cfg_recency = Some \<lparr>rc_days_decay = Some 15, rc_max_score = Some 10, rc_description = None\<rparr>,
      cfg_intent_thresholds = None,
      cfg_score_colors = None,
      cfg_confidence_factors = None,
      cfg_recommended_actions = None,
      cfg_conversion_probabilities = None\<rparr>"

definition example_fs :: "string \<rightharpoonup> string" where
  "example_fs =
     [settings_config_path \<mapsto> text_without_weights, ''empty.yaml'' \<mapsto> [], ''broken.yaml'' \<mapsto> ''weights: ['']"

definition example_safe_load :: "string \<Rightarrow> error + yaml_doc" where
  "example_safe_load text =
     (if text = text_without_weights then Inr (YMapping config_without_weights)
      else if text = [] then Inr YNull
      else Inl YAMLError)"

definition engine_without_weights :: scoring_engine where
  "engine_without_weights =
     \<lparr>se_config = config_without_weights,
      se_weights = [],
      se_recency_config = \<lparr>rc_days_decay = Some 15, rc_max_score = Some 10, rc_description = None\<rparr>\<rparr>"

text \<open>A configuration, a lead and a clock reading to evaluate the engines on.\<close>

definition example_config :: config where
  "example_config =
     \<lparr>cfg_weights = Some
        [(''demo_requested'', \<lparr>wc_weight = Some 30, wc_description = Some ''Requested a demo''\<rparr>),
         (''registration'', \<lparr>wc_weight = Some 20, wc_description = Some ''Completed registration''\<rparr>),
         (''pricing_compared'', \<lparr>wc_weight = Some 15, wc_description = Some ''Compared pricing''\<rparr>)],
      cfg_recency = Some
        \<lparr>rc_days_decay = Some 15, rc_max_score = Some 10, rc_description = Some ''Recent enquiry''\<rparr>,
      cfg_intent_thresholds = Some \<lparr>it_high = Some 80, it_medium = Some 60\<rparr>,
      cfg_score_colors = Some
        [(''high'', \<lparr>sc_min = Some 80, sc_max = Some 100, sc_color = Some ''#10b981'',
                    sc_label = Some ''High Intent''\<rparr>),
         (''medium'', \<lparr>sc_min = Some 60, sc_max = Some 80, sc_color = Some ''#f59e0b'',
                      sc_label = Some ''Medium Intent''\<rparr>),
         (''low'', \<lparr>sc_min = Some 0, sc_max = Some 60, sc_color = Some ''#ef4444'',
                   sc_label = Some ''Low Intent''\<rparr>)],
      cfg_confidence_factors = Some
        [\<lparr>cf_name = Some ''data_completeness'', cf_weight = Some (3 / 10)\<rparr>,
         \<lparr>cf_name = Some ''signal_recency'', cf_weight = Some (4 / 10)\<rparr>,
         \<lparr>cf_name = Some ''signal_diversity'', cf_weight = Some (3 / 10)\<rparr>],
      cfg_recommended_actions = Some
        [(''score_80_100'', \<lparr>ac_action = Some ''Immediate sales call'',
            ac_urgency = Some ''Immediate'', ac_probability_label = Some ''>70%''\<rparr>),
         (''score_60_79'', \<lparr>ac_action = Some ''Send pricing and follow up'',
            ac_urgency = Some ''High'', ac_probability_label = Some ''50-70%''\<rparr>),
         (''score_40_59'', \<lparr>ac_action = Some ''Nurture campaign'',
            ac_urgency = Some ''Medium'', ac_probability_label = Some ''20-50%''\<rparr>),
         (''score_below_40'', \<lparr>ac_action = Some ''Automated drip'',
            ac_urgency = Some ''Low'', ac_probability_label = Some ''<20%''\<rparr>)],
      cfg_conversion_probabilities = Some
        [(''score_80_100'', \<lparr>pc_probability = Some (3 / 4)\<rparr>),
         (''score_60_79'', \<lparr>pc_probability = Some (11 / 20)\<rparr>),
         (''score_40_59'', \<lparr>pc_probability = Some (3 / 10)\<rparr>),
         (''score_below_40'', \<lparr>pc_probability = Some (1 / 10)\<rparr>)]\<rparr>"

definition example_engine :: scoring_engine where
  "example_engine =
     \<lparr>se_config = example_config,
      se_weights = opt_get (cfg_weights example_config) [],
      se_recency_config = opt_get (cfg_recency example_config) empty_recency_config\<rparr>"

definition example_lead :: lead_input where
  "example_lead =
     \<lparr>li_email = ''ada@example.com'', li_name = ''Ada'', li_company = None,
      li_demo_requested = True, li_registration = False, li_enquiry_call_whatsapp = False,
      li_enquiry_date = Some 0, li_pricing_compared = True, li_lead_through_events = False,
      li_lead_through_call = False, li_lead_through_referral = False\<rparr>"

definition tie_engine :: scoring_engine where
  "tie_engine =
     \<lparr>se_config = example_config,
      se_weights =
        [(''registration'', \<lparr>wc_weight = Some 20, wc_description = Some ''Completed registration''\<rparr>),
         (''demo_requested'', \<lparr>wc_weight = Some 20, wc_description = Some ''Requested a demo''\<rparr>)],
      se_recency_config = empty_recency_config\<rparr>"

definition example_explanation_engine :: explanation_engine where
  "example_explanation_engine =
     \<lparr>ee_config = example_config,
      ee_intent_thresholds = opt_get (cfg_intent_thresholds example_config) empty_intent_thresholds,
      ee_score_colors = opt_get (cfg_score_colors example_config) []\<rparr>"

definition example_action_engine :: next_action_engine where
  "example_action_engine =
     \<lparr>na_config = example_config,
      na_actions = opt_get (cfg_recommended_actions example_config) [],
      na_probabilities = opt_get (cfg_conversion_probabilities example_config) []\<rparr>"

definition example_service :: lead_service where
  "example_service =
     \<lparr>ls_scoring_engine = example_engine,
      ls_explanation_engine = example_explanation_engine,
      ls_action_engine = example_action_engine\<rparr>"

definition empty_db :: db_state where
  "empty_db = \<lparr>db_leads = [], db_next_id = 1\<rparr>"

definition day :: int where
  "day = 86400000000"

section \<open>Properties\<close>

subsection \<open>The loops of the scoring engine\<close>

lemma weighted_loop_totals:
  "weighted_loop ws ld (rs, tr, tw) = (rs', tr', tw') \<Longrightarrow>
     tr' = tr + feature_raw_total ws ld \<and> tw' = tw + feature_weight_total ws"
proof (induction ws arbitrary: rs tr tw)
  case Nil
  then show ?case by (simp add: feature_raw_total_def feature_weight_total_def)
next
  case (Cons p ws)
  obtain f wc where p: "p = (f, wc)" by (cases p)
  show ?case
  proof (cases "truthy (dict_get ld f (PBool False))")
    case True
    with Cons.prems p have
      "weighted_loop ws ld (AList.update f (opt_get (wc_weight wc) 0) rs,
          tr + opt_get (wc_weight wc) 0, tw + opt_get (wc_weight wc) 0) = (rs', tr', tw')"
      by (simp add: Let_def)
    from Cons.IH[OF this] True p show ?thesis
      by (simp add: feature_raw_total_def feature_weight_total_def)
  next
    case False
    with Cons.prems p have
      "weighted_loop ws ld (AList.update f 0 rs, tr, tw + opt_get (wc_weight wc) 0) = (rs', tr', tw')"
      by (simp add: Let_def)
    from Cons.IH[OF this] False p show ?thesis
      by (simp add: feature_raw_total_def feature_weight_total_def)
  qed
qed

lemma set_update_subset: "set (AList.update k v al) \<subseteq> insert (k, v) (set al)"
  by (induction al) auto

lemma weighted_loop_raw_values:
  "weighted_loop ws ld (rs, tr, tw) = (rs', tr', tw') \<Longrightarrow> (f, v) \<in> set rs' \<Longrightarrow>
     (f, v) \<in> set rs \<or> v = 0 \<or> (\<exists>wc. (f, wc) \<in> set ws \<and> v = opt_get (wc_weight wc) 0)"
proof (induction ws arbitrary: rs tr tw)
  case Nil
  then show ?case by simp
next
  case (Cons p ws)
  obtain g wc where p: "p = (g, wc)" by (cases p)
  define w where "w = (if truthy (dict_get ld g (PBool False)) then opt_get (wc_weight wc) 0 else 0)"
  from Cons.prems(1) p have
    "weighted_loop ws ld (AList.update g w rs, tr + w, tw + opt_get (wc_weight wc) 0) = (rs', tr', tw')"
    by (simp add: Let_def w_def split: if_splits)
  from Cons.IH[OF this Cons.prems(2)]
  have "(f, v) \<in> set (AList.update g w rs) \<or> v = 0 \<or>
        (\<exists>wc. (f, wc) \<in> set ws \<and> v = opt_get (wc_weight wc) 0)" .
  moreover have "(f, v) \<in> set (AList.update g w rs) \<Longrightarrow> (f, v) = (g, w) \<or> (f, v) \<in> set rs"
    using set_update_subset[of g w rs] by auto
  ultimately show ?case using p by (auto simp: w_def split: if_splits)
qed

lemma contribution_loop_returns:
  "tw \<noteq> 0 \<or> (\<forall>(f, v) \<in> set rs. v \<le> 0) \<Longrightarrow> \<exists>cd. contribution_loop ws tw rs acc = Inr cd"
  by (induction ws tw rs acc rule: contribution_loop.induct) auto

lemma sum_list_nonneg_zero:
  fixes xs :: "real list"
  shows "(\<forall>x \<in> set xs. 0 \<le> x) \<Longrightarrow> sum_list xs \<le> 0 \<Longrightarrow> x \<in> set xs \<Longrightarrow> x = 0"
  by (induction xs) (auto simp: add_nonneg_eq_0_iff sum_list_nonneg  dest: order_antisym)

lemma feature_raw_total_nonneg:
  "\<forall>(f, wc) \<in> set ws. 0 \<le> opt_get (wc_weight wc) 0 \<Longrightarrow> 0 \<le> feature_raw_total ws ld"
  unfolding feature_raw_total_def by (rule sum_list_nonneg) auto

lemma feature_weight_total_nonneg:
  "\<forall>(f, wc) \<in> set ws. 0 \<le> opt_get (wc_weight wc) 0 \<Longrightarrow> 0 \<le> feature_weight_total ws"
  unfolding feature_weight_total_def by (rule sum_list_nonneg) auto

lemma feature_weight_total_zero:
  assumes "\<forall>(f, wc) \<in> set ws. 0 \<le> opt_get (wc_weight wc) 0"
      and "feature_weight_total ws \<le> 0" and "(f, wc) \<in> set ws"
  shows "opt_get (wc_weight wc) 0 = 0"
proof (rule sum_list_nonneg_zero[where xs = "map (\<lambda>(f, wc). opt_get (wc_weight wc) 0) ws"])
  show "\<forall>x\<in>set (map (\<lambda>(f, wc). opt_get (wc_weight wc) 0) ws). 0 \<le> x"
    using assms(1) by auto
  show "sum_list (map (\<lambda>(f, wc). opt_get (wc_weight wc) 0) ws) \<le> 0"
    using assms(2) by (simp add: feature_weight_total_def)
  show "opt_get (wc_weight wc) 0 \<in> set (map (\<lambda>(f, wc). opt_get (wc_weight wc) 0) ws)"
    using assms(3) by force
qed

lemma calculate_recency_score_nonneg:
  "calculate_recency_score rc now e = Inr r \<Longrightarrow> 0 \<le> r"
  by (auto simp: calculate_recency_score_def Let_def split: pyval.splits if_splits)

lemma calculate_recency_score_zero_budget:
  "calculate_recency_score rc now e = Inr r \<Longrightarrow> opt_get (rc_max_score rc) 10 = 0 \<Longrightarrow> r = 0"
  by (auto simp: calculate_recency_score_def Let_def split: pyval.splits if_splits)

lemma recency_contribution_returns:
  "tw \<noteq> 0 \<or> r \<le> 0 \<Longrightarrow> \<exists>cd. recency_contribution rc tw r acc = Inr cd"
  by (auto simp: recency_contribution_def)

lemma contributions_detail_returns:
  assumes "tw \<noteq> 0 \<or> ((\<forall>(f, v) \<in> set rs. v \<le> 0) \<and> r \<le> 0)"
  shows "\<exists>cd. contributions_detail eng tw rs r = Inr cd"
proof -
  from assms obtain cd0 where c0: "contribution_loop (se_weights eng) tw rs [] = Inr cd0"
    using contribution_loop_returns[of tw rs "se_weights eng" "[]"] by auto
  from assms obtain cd where "recency_contribution (se_recency_config eng) tw r cd0 = Inr cd"
    using recency_contribution_returns[of tw r "se_recency_config eng" cd0] by auto
  with c0 show ?thesis by (simp add: contributions_detail_def)
qed

lemma score_Inr_iff:
  "score eng now ld = Inr res \<longleftrightarrow>
     (\<exists>rs tr0 tw0 r cd.
        weighted_loop (se_weights eng) ld ([], 0, 0) = (rs, tr0, tw0) \<and>
        calculate_recency_score (se_recency_config eng) now (dict_get ld ''enquiry_date'' PNone) = Inr r \<and>
        contributions_detail eng (tw0 + opt_get (rc_max_score (se_recency_config eng)) 10) rs r = Inr cd \<and>
        res = \<lparr>sr_score = (if tw0 + opt_get (rc_max_score (se_recency_config eng)) 10 > 0
                           then min 100 ((tr0 + r) / (tw0 + opt_get (rc_max_score (se_recency_config eng)) 10) * 100)
                           else 0),
               sr_contributions = sort_by_impact_desc cd,
               sr_raw_scores = rs,
               sr_recency_score = r\<rparr>)"
  by (auto simp: score_def Let_def split: prod.splits sum.splits)

lemma score_Inr_totals:
  assumes "score eng now ld = Inr res"
  shows "\<exists>rs r cd.
        weighted_loop (se_weights eng) ld ([], 0, 0) =
          (rs, feature_raw_total (se_weights eng) ld, feature_weight_total (se_weights eng)) \<and>
        calculate_recency_score (se_recency_config eng) now (dict_get ld ''enquiry_date'' PNone) = Inr r \<and>
        contributions_detail eng
          (feature_weight_total (se_weights eng) + opt_get (rc_max_score (se_recency_config eng)) 10) rs r = Inr cd \<and>
        sr_recency_score res = r \<and> sr_contributions res = sort_by_impact_desc cd \<and> sr_raw_scores res = rs \<and>
        sr_score res =
          (if feature_weight_total (se_weights eng) + opt_get (rc_max_score (se_recency_config eng)) 10 > 0
           then min 100 ((feature_raw_total (se_weights eng) ld + r) /
                  (feature_weight_total (se_weights eng) + opt_get (rc_max_score (se_recency_config eng)) 10) * 100)
           else 0)"
proof -
  from assms obtain rs tr0 tw0 r cd where
    wl: "weighted_loop (se_weights eng) ld ([], 0, 0) = (rs, tr0, tw0)" and
    rc: "calculate_recency_score (se_recency_config eng) now (dict_get ld ''enquiry_date'' PNone) = Inr r" and
    cd: "contributions_detail eng (tw0 + opt_get (rc_max_score (se_recency_config eng)) 10) rs r = Inr cd" and
    res: "res = \<lparr>sr_score = (if tw0 + opt_get (rc_max_score (se_recency_config eng)) 10 > 0
                           then min 100 ((tr0 + r) / (tw0 + opt_get (rc_max_score (se_recency_config eng)) 10) * 100)
                           else 0),
               sr_contributions = sort_by_impact_desc cd,
               sr_raw_scores = rs,
               sr_recency_score = r\<rparr>"
    unfolding score_Inr_iff by blast
  from weighted_loop_totals[OF wl] have t: "tr0 = feature_raw_total (se_weights eng) ld"
    "tw0 = feature_weight_total (se_weights eng)" by simp_all
  show ?thesis using wl rc cd res unfolding t by (intro exI[of _ rs] exI[of _ r] exI[of _ cd]) simp
qed

lemma score_returns:
  assumes rc: "calculate_recency_score (se_recency_config eng) now (dict_get ld ''enquiry_date'' PNone) = Inr r"
      and wl: "weighted_loop (se_weights eng) ld ([], 0, 0) = (rs, tr0, tw0)"
      and ok: "tw0 + opt_get (rc_max_score (se_recency_config eng)) 10 \<noteq> 0 \<or>
               ((\<forall>(f, v) \<in> set rs. v \<le> 0) \<and> r \<le> 0)"
  shows "\<exists>res. score eng now ld = Inr res"
proof -
  from contributions_detail_returns[OF ok] obtain cd where
    "contributions_detail eng (tw0 + opt_get (rc_max_score (se_recency_config eng)) 10) rs r = Inr cd" ..
  with rc wl show ?thesis unfolding score_Inr_iff by blast
qed

lemma score_recency_error:
  "calculate_recency_score (se_recency_config eng) now (dict_get ld ''enquiry_date'' PNone) = Inl e
     \<Longrightarrow> score eng now ld = Inl e"
  by (simp add: score_def split: prod.splits)

subsection \<open>The sort\<close>

lemma set_insert_desc: "set (insert_desc c cs) = insert c (set cs)"
  by (induction cs) auto

lemma set_sort_by_impact_desc: "set (sort_by_impact_desc cs) = set cs"
  unfolding sort_by_impact_desc_def by (induction cs) (simp_all add: set_insert_desc)

lemma length_insert_desc: "length (insert_desc c cs) = Suc (length cs)"
  by (induction cs) auto

lemma length_sort_by_impact_desc: "length (sort_by_impact_desc cs) = length cs"
  unfolding sort_by_impact_desc_def by (induction cs) (simp_all add: length_insert_desc)

lemma sorted_insert_desc:
  "sorted_wrt (\<lambda>a b. impact a \<ge> impact b) cs \<Longrightarrow>
   sorted_wrt (\<lambda>a b. impact a \<ge> impact b) (insert_desc c cs)"
  by (induction cs) (auto simp: set_insert_desc)

lemma sorted_sort_by_impact_desc:
  "sorted_wrt (\<lambda>a b. impact a \<ge> impact b) (sort_by_impact_desc cs)"
  unfolding sort_by_impact_desc_def by (induction cs) (simp_all add: sorted_insert_desc)

lemma filter_insert_desc_other:
  "impact c \<noteq> v \<Longrightarrow> filter (\<lambda>x. impact x = v) (insert_desc c cs) = filter (\<lambda>x. impact x = v) cs"
  by (induction cs) auto

lemma filter_insert_desc_same:
  "sorted_wrt (\<lambda>a b. impact a \<ge> impact b) cs \<Longrightarrow>
   filter (\<lambda>x. impact x = impact c) (insert_desc c cs) = c # filter (\<lambda>x. impact x = impact c) cs"
  by (induction cs) auto

lemma filter_sort_by_impact_desc:
  "filter (\<lambda>x. impact x = v) (sort_by_impact_desc cs) = filter (\<lambda>x. impact x = v) cs"
proof (induction cs)
  case Nil
  then show ?case by (simp add: sort_by_impact_desc_def)
next
  case (Cons c cs)
  have s: "sort_by_impact_desc (c # cs) = insert_desc c (sort_by_impact_desc cs)"
    by (simp add: sort_by_impact_desc_def)
  show ?case
  proof (cases "impact c = v")
    case True
    then show ?thesis
      using filter_insert_desc_same[OF sorted_sort_by_impact_desc, of c cs] Cons.IH
      by (simp add: s)
  next
    case False
    then show ?thesis using Cons.IH by (simp add: s filter_insert_desc_other)
  qed
qed

lemma score_encounter_order:
  assumes "score eng now ld = Inr res"
  shows "\<exists>cd. encounter_order eng now ld = Inr cd \<and> sr_contributions res = sort_by_impact_desc cd"
proof -
  from score_Inr_totals[OF assms] obtain rs r cd where
    "weighted_loop (se_weights eng) ld ([], 0, 0) =
          (rs, feature_raw_total (se_weights eng) ld, feature_weight_total (se_weights eng))"
    "calculate_recency_score (se_recency_config eng) now (dict_get ld ''enquiry_date'' PNone) = Inr r"
    "contributions_detail eng
          (feature_weight_total (se_weights eng) + opt_get (rc_max_score (se_recency_config eng)) 10) rs r = Inr cd"
    "sr_contributions res = sort_by_impact_desc cd" by blast
  then show ?thesis by (auto simp: encounter_order_def)
qed

lemma recency_contribution_mem:
  "recency_contribution rc tw r acc = Inr cd \<Longrightarrow> 0 < r \<Longrightarrow>
     \<lparr>feature = ''recency'', impact = r / tw * 100, reason = opt_get (rc_description rc) ''''\<rparr> \<in> set cd"
  by (auto simp: recency_contribution_def split: if_splits)

lemma contributions_detail_recency_mem:
  "contributions_detail eng tw rs r = Inr cd \<Longrightarrow> 0 < r \<Longrightarrow>
     \<lparr>feature = ''recency'', impact = r / tw * 100,
       reason = opt_get (rc_description (se_recency_config eng)) ''''\<rparr> \<in> set cd"
  by (auto simp: contributions_detail_def split: sum.splits dest: recency_contribution_mem)

lemma timedelta_days_negative: "delta < 0 \<Longrightarrow> timedelta_days delta < 0"
  by (simp add: timedelta_days_def)

subsection \<open>The engines on the example configuration\<close>

lemmas example_defs = example_engine_def example_config_def example_lead_def model_dump_def day_def
  opt_get_def dict_get_def empty_weight_config_def empty_recency_config_def

lemmas score_eval = score_def calculate_recency_score_def timedelta_days_def contributions_detail_def
  recency_contribution_def sort_by_impact_desc_def Let_def

lemma example_hyps:
  "\<forall>(f, wc) \<in> set (se_weights example_engine). 0 \<le> opt_get (wc_weight wc) 0"
  "0 \<le> opt_get (rc_max_score (se_recency_config example_engine)) 10"
  by (simp_all add: example_engine_def example_config_def opt_get_def)

lemma ex_rec:
  "calculate_recency_score (se_recency_config example_engine) (5 * day)
     (dict_get (model_dump example_lead) ''enquiry_date'' PNone) = Inr (20 / 3)"
  by (simp add: example_defs calculate_recency_score_def timedelta_days_def)

lemma ex_tot:
  "feature_raw_total (se_weights example_engine) (model_dump example_lead) = 45"
  "feature_weight_total (se_weights example_engine) = 65"
  by (simp_all add: example_defs feature_raw_total_def feature_weight_total_def)

lemma ex_ms: "opt_get (rc_max_score (se_recency_config example_engine)) 10 = 10"
  by (simp add: example_engine_def example_config_def opt_get_def)

lemma score_future:
  "score example_engine (- 1) (model_dump (example_lead\<lparr>li_registration := True\<rparr>)) =
     Inr \<lparr>sr_score = 100,
          sr_contributions =
            [\<lparr>feature = ''demo_requested'', impact = 40, reason = ''Requested a demo''\<rparr>,
             \<lparr>feature = ''registration'', impact = 80 / 3, reason = ''Completed registration''\<rparr>,
             \<lparr>feature = ''pricing_compared'', impact = 20, reason = ''Compared pricing''\<rparr>,
             \<lparr>feature = ''recency'', impact = 128 / 9, reason = ''Recent enquiry''\<rparr>],
          sr_raw_scores = [(''demo_requested'', 30), (''registration'', 20), (''pricing_compared'', 15)],
          sr_recency_score = 32 / 3\<rparr>"
  by (simp add: example_defs score_eval)

lemma score_tie:
  "score tie_engine (5 * day) (model_dump (example_lead\<lparr>li_registration := True\<rparr>)) =
     Inr \<lparr>sr_score = 280 / 3,
          sr_contributions =
            [\<lparr>feature = ''registration'', impact = 40, reason = ''Completed registration''\<rparr>,
             \<lparr>feature = ''demo_requested'', impact = 40, reason = ''Requested a demo''\<rparr>,
             \<lparr>feature = ''recency'', impact = 40 / 3, reason = []\<rparr>],
          sr_raw_scores = [(''registration'', 20), (''demo_requested'', 20)],
          sr_recency_score = 20 / 3\<rparr>"
  by (simp add: tie_engine_def example_defs score_eval)

lemma encounter_tie:
  "encounter_order tie_engine (5 * day) (model_dump (example_lead\<lparr>li_registration := True\<rparr>)) =
     Inr [\<lparr>feature = ''registration'', impact = 40, reason = ''Completed registration''\<rparr>,
          \<lparr>feature = ''demo_requested'', impact = 40, reason = ''Requested a demo''\<rparr>,
          \<lparr>feature = ''recency'', impact = 40 / 3, reason = []\<rparr>]"
  by (simp add: tie_engine_def example_defs score_eval encounter_order_def)

subsection \<open>Range of the score\<close>

text \<open>
  C1: with non-negative feature weights and a non-negative recency budget, \<open>score\<close>
  returns exactly when the recency component can be computed (it raises only for a
  \<open>days_decay\<close> of zero with a timestamp present, or a value that is no timestamp), and
  the score it returns lies between 0 and 100: it is
  \<open>min(100, total_raw_score / total_weight * 100)\<close> when the total weight is positive
  and 0 otherwise.
\<close>

theorem score_normalized_range:
  assumes w: "\<forall>(f, wc) \<in> set (se_weights eng). 0 \<le> opt_get (wc_weight wc) 0"
      and m: "0 \<le> opt_get (rc_max_score (se_recency_config eng)) 10"
  shows "case calculate_recency_score (se_recency_config eng) now (dict_get ld ''enquiry_date'' PNone) of
           Inl e \<Rightarrow> score eng now ld = Inl e
         | Inr r \<Rightarrow>
             (\<exists>res. score eng now ld = Inr res \<and> sr_recency_score res = r \<and>
                0 \<le> sr_score res \<and> sr_score res \<le> 100 \<and>
                sr_score res =
                  (let total_raw_score = feature_raw_total (se_weights eng) ld + r;
                       total_weight = feature_weight_total (se_weights eng) +
                                      opt_get (rc_max_score (se_recency_config eng)) 10
                   in if total_weight > 0 then min 100 (total_raw_score / total_weight * 100) else 0))"
proof (cases "calculate_recency_score (se_recency_config eng) now (dict_get ld ''enquiry_date'' PNone)")
  case (Inl e)
  then show ?thesis by (simp add: score_recency_error)
next
  case (Inr r)
  define ms where "ms = opt_get (rc_max_score (se_recency_config eng)) 10"
  define fw where "fw = feature_weight_total (se_weights eng)"
  define fr where "fr = feature_raw_total (se_weights eng) ld"
  obtain rs tr0 tw0 where wl: "weighted_loop (se_weights eng) ld ([], 0, 0) = (rs, tr0, tw0)"
    by (cases "weighted_loop (se_weights eng) ld ([], 0, 0)")
  from weighted_loop_totals[OF wl] have tw0: "tw0 = fw" by (simp add: fw_def)
  have r0: "0 \<le> r" using Inr by (rule calculate_recency_score_nonneg)
  have fw0: "0 \<le> fw" unfolding fw_def using w by (rule feature_weight_total_nonneg)
  have fr0: "0 \<le> fr" unfolding fr_def using w by (rule feature_raw_total_nonneg)
  have ok: "tw0 + opt_get (rc_max_score (se_recency_config eng)) 10 \<noteq> 0 \<or>
               ((\<forall>(f, v) \<in> set rs. v \<le> 0) \<and> r \<le> 0)"
  proof (cases "fw + ms = 0")
    case False
    then show ?thesis by (simp add: tw0 ms_def)
  next
    case True
    with fw0 m have z: "fw \<le> 0" "ms = 0" by (simp_all add: ms_def)
    have "r = 0" using Inr z(2) unfolding ms_def by (rule calculate_recency_score_zero_budget)
    moreover have "v \<le> 0" if "(f, v) \<in> set rs" for f v
    proof -
      from weighted_loop_raw_values[OF wl that]
      consider "v = 0" | wc where "(f, wc) \<in> set (se_weights eng)" "v = opt_get (wc_weight wc) 0"
        by auto
      then show ?thesis
      proof cases
        case 1 then show ?thesis by simp
      next
        case 2
        with feature_weight_total_zero[OF w _ 2(1)] z(1) show ?thesis by (simp add: fw_def)
      qed
    qed
    ultimately show ?thesis by auto
  qed
  from score_returns[OF Inr wl ok] obtain res where res: "score eng now ld = Inr res" ..
  from score_Inr_totals[OF res] Inr have
    rr: "sr_recency_score res = r" and
    sc: "sr_score res = (if fw + ms > 0 then min 100 ((fr + r) / (fw + ms) * 100) else 0)"
    by (auto simp: fw_def fr_def ms_def)
  have "0 \<le> sr_score res" using sc r0 fr0 by (auto simp: min_def)
  moreover have "sr_score res \<le> 100" using sc by (auto simp: min_def)
  ultimately show ?thesis using Inr res rr sc
    by (simp add: Let_def fw_def fr_def ms_def)
qed

text \<open>
  The example of the specification: 45 raw points, recency 20/3, total weight 75.
\<close>

theorem score_normalized_range_witness:
  "\<exists>res. score example_engine (5 * day) (model_dump example_lead) = Inr res
        \<and> sr_recency_score res = 20 / 3 \<and> 0 \<le> sr_score res \<and> sr_score res \<le> 100
        \<and> sr_score res = 620 / 9"
proof -
  note t = score_normalized_range[OF example_hyps, of "5 * day" "model_dump example_lead"]
  from t show ?thesis unfolding ex_rec ex_tot ex_ms by (simp add: Let_def)
qed

subsection \<open>Leads without an enquiry date\<close>

text \<open>
  C3: when the lead data carry no enquiry timestamp, the recency score is 0, and the
  denominator of the normalisation is still the sum of all configured weights plus the
  recency budget \<open>max_score\<close>; the call returns whenever that denominator is not zero.
\<close>

theorem no_enquiry_date_recency_zero:
  assumes "dict_get ld ''enquiry_date'' PNone = PNone"
  shows "calculate_recency_score (se_recency_config eng) now (dict_get ld ''enquiry_date'' PNone) = Inr 0
       \<and> (\<forall>res. score eng now ld = Inr res \<longrightarrow>
            sr_recency_score res = 0 \<and>
            sr_score res =
              (let total_weight = feature_weight_total (se_weights eng) +
                                  opt_get (rc_max_score (se_recency_config eng)) 10
               in if total_weight > 0
                  then min 100 (feature_raw_total (se_weights eng) ld / total_weight * 100) else 0))
       \<and> (feature_weight_total (se_weights eng) + opt_get (rc_max_score (se_recency_config eng)) 10 \<noteq> 0
            \<longrightarrow> (\<exists>res. score eng now ld = Inr res))"
proof (intro conjI allI impI)
  show rc: "calculate_recency_score (se_recency_config eng) now (dict_get ld ''enquiry_date'' PNone) = Inr 0"
    using assms by (simp add: calculate_recency_score_def)
  {
    fix res assume "score eng now ld = Inr res"
    from score_Inr_totals[OF this] rc
    show "sr_recency_score res = 0" by auto
  next
    fix res assume "score eng now ld = Inr res"
    from score_Inr_totals[OF this] rc
    show "sr_score res =
              (let total_weight = feature_weight_total (se_weights eng) +
                                  opt_get (rc_max_score (se_recency_config eng)) 10
               in if total_weight > 0
                  then min 100 (feature_raw_total (se_weights eng) ld / total_weight * 100) else 0)"
      by (auto simp: Let_def)
  next
    assume nz: "feature_weight_total (se_weights eng) + opt_get (rc_max_score (se_recency_config eng)) 10 \<noteq> 0"
    obtain rs tr0 tw0 where wl: "weighted_loop (se_weights eng) ld ([], 0, 0) = (rs, tr0, tw0)"
      by (cases "weighted_loop (se_weights eng) ld ([], 0, 0)")
    from weighted_loop_totals[OF wl] nz
    have "tw0 + opt_get (rc_max_score (se_recency_config eng)) 10 \<noteq> 0 \<or>
               ((\<forall>(f, v) \<in> set rs. v \<le> 0) \<and> (0::real) \<le> 0)" by simp
    from score_returns[OF rc wl this] show "\<exists>res. score eng now ld = Inr res" .
  }
qed

text \<open>
  The example lead without its enquiry date: 45 of 75 points.
\<close>

theorem no_enquiry_date_recency_zero_witness:
  "calculate_recency_score (se_recency_config example_engine) 0
      (dict_get (model_dump (example_lead\<lparr>li_enquiry_date := None\<rparr>)) ''enquiry_date'' PNone) = Inr 0
   \<and> (\<exists>res. score example_engine 0 (model_dump (example_lead\<lparr>li_enquiry_date := None\<rparr>)) = Inr res
         \<and> sr_recency_score res = 0 \<and> sr_score res = 60)"
proof -
  have h: "dict_get (model_dump (example_lead\<lparr>li_enquiry_date := None\<rparr>)) ''enquiry_date'' PNone = PNone"
    by (simp add: example_defs)
  have r: "feature_raw_total (se_weights example_engine)
             (model_dump (example_lead\<lparr>li_enquiry_date := None\<rparr>)) = 45"
    by (simp add: example_defs feature_raw_total_def)
  note t = no_enquiry_date_recency_zero[OF h, of example_engine 0]
  from t obtain res where
    res: "score example_engine 0 (model_dump (example_lead\<lparr>li_enquiry_date := None\<rparr>)) = Inr res"
    unfolding ex_tot ex_ms by auto
  from t res have "sr_recency_score res = 0 \<and> sr_score res = 60"
    unfolding ex_tot ex_ms r by (simp add: Let_def)
  with t res show ?thesis by blast
qed

subsection \<open>Order of the contributions\<close>

text \<open>
  C6: the contributions returned by \<open>score\<close> are in descending order of impact, and
  they are the entries of the encounter-order list; for every impact value, the entries of
  that impact appear in the same relative order as before the sort.
\<close>

theorem score_contributions_sorted_stable:
  assumes "score eng now ld = Inr res"
  shows "sorted_wrt (\<lambda>a b. impact a \<ge> impact b) (sr_contributions res)
       \<and> (\<exists>cd. encounter_order eng now ld = Inr cd
              \<and> length (sr_contributions res) = length cd
              \<and> set (sr_contributions res) = set cd
              \<and> (\<forall>v. filter (\<lambda>c. impact c = v) (sr_contributions res) = filter (\<lambda>c. impact c = v) cd))"
proof -
  from score_encounter_order[OF assms] obtain cd where
    cd: "encounter_order eng now ld = Inr cd" "sr_contributions res = sort_by_impact_desc cd" by blast
  show ?thesis
    using cd by (simp add: sorted_sort_by_impact_desc length_sort_by_impact_desc
        set_sort_by_impact_desc filter_sort_by_impact_desc)
qed

text \<open>
  Two features of equal weight keep their configuration order.
\<close>

theorem score_contributions_sorted_stable_witness:
  "sorted_wrt (\<lambda>a b. impact a \<ge> impact b)
     [\<lparr>feature = ''registration'', impact = 40, reason = ''Completed registration''\<rparr>,
      \<lparr>feature = ''demo_requested'', impact = 40, reason = ''Requested a demo''\<rparr>,
      \<lparr>feature = ''recency'', impact = 40 / 3, reason = []\<rparr>]
   \<and> filter (\<lambda>c. impact c = 40)
       [\<lparr>feature = ''registration'', impact = 40, reason = ''Completed registration''\<rparr>,
        \<lparr>feature = ''demo_requested'', impact = 40, reason = ''Requested a demo''\<rparr>,
        \<lparr>feature = ''recency'', impact = 40 / 3, reason = []\<rparr>]
     = [\<lparr>feature = ''registration'', impact = 40, reason = ''Completed registration''\<rparr>,
        \<lparr>feature = ''demo_requested'', impact = 40, reason = ''Requested a demo''\<rparr>]"
  using score_contributions_sorted_stable[OF score_tie] unfolding encounter_tie
  by simp

subsection \<open>Recency of enquiries dated in the future\<close>

text \<open>
  C10: for a positive \<open>days_decay\<close> and a positive \<open>max_score\<close>, an enquiry timestamp
  later than the clock reading has a negative number of days, and the recency score is
  \<open>(days_decay - days_since) / days_decay * max_score\<close>, strictly more than
  \<open>max_score\<close>. That value is the recency score of the result, is part of the total raw
  score and is the numerator of the impact of the \<open>recency\<close> contribution.
\<close>

theorem recency_score_unclamped_above:
  assumes dd: "0 < opt_get (rc_days_decay (se_recency_config eng)) 15"
      and ms: "0 < opt_get (rc_max_score (se_recency_config eng)) 10"
      and enq: "dict_get ld ''enquiry_date'' PNone = PDate d"
      and future: "now < d"
  shows "let days_since = timedelta_days (now - d);
             days_decay = opt_get (rc_days_decay (se_recency_config eng)) 15;
             max_score = opt_get (rc_max_score (se_recency_config eng)) 10;
             r = (days_decay - real_of_int days_since) / days_decay * max_score;
             total_weight = feature_weight_total (se_weights eng) + max_score
         in days_since < 0
          \<and> calculate_recency_score (se_recency_config eng) now (PDate d) = Inr r
          \<and> max_score < r
          \<and> (\<forall>res. score eng now ld = Inr res \<longrightarrow>
                sr_recency_score res = r
              \<and> sr_score res =
                  (if total_weight > 0
                   then min 100 ((feature_raw_total (se_weights eng) ld + r) / total_weight * 100)
                   else 0)
              \<and> \<lparr>feature = ''recency'', impact = r / total_weight * 100,
                  reason = opt_get (rc_description (se_recency_config eng)) ''''\<rparr>
                  \<in> set (sr_contributions res))
          \<and> (total_weight \<noteq> 0 \<longrightarrow> (\<exists>res. score eng now ld = Inr res))"
proof -
  define days_since where "days_since = timedelta_days (now - d)"
  define days_decay where "days_decay = opt_get (rc_days_decay (se_recency_config eng)) 15"
  define max_score where "max_score = opt_get (rc_max_score (se_recency_config eng)) 10"
  define r where "r = (days_decay - real_of_int days_since) / days_decay * max_score"
  define total_weight where "total_weight = feature_weight_total (se_weights eng) + max_score"
  have neg: "days_since < 0"
    unfolding days_since_def using future by (intro timedelta_days_negative) simp
  have "1 < (days_decay - real_of_int days_since) / days_decay"
    using dd neg by (simp add: days_decay_def)
  then have "1 * max_score < (days_decay - real_of_int days_since) / days_decay * max_score"
    using ms unfolding max_score_def by (rule mult_strict_right_mono)
  then have big: "max_score < r"
    unfolding r_def by simp
  then have rpos: "0 < r" using ms by (simp add: max_score_def)
  have rc: "calculate_recency_score (se_recency_config eng) now (PDate d) = Inr r"
    using dd rpos
    by (simp add: calculate_recency_score_def Let_def r_def days_decay_def days_since_def max_score_def)
  have a: "sr_recency_score res = r
              \<and> sr_score res =
                  (if total_weight > 0
                   then min 100 ((feature_raw_total (se_weights eng) ld + r) / total_weight * 100)
                   else 0)
              \<and> \<lparr>feature = ''recency'', impact = r / total_weight * 100,
                  reason = opt_get (rc_description (se_recency_config eng)) ''''\<rparr>
                  \<in> set (sr_contributions res)" if "score eng now ld = Inr res" for res
  proof -
    from score_Inr_totals[OF that] obtain rs r' cd where
      h: "calculate_recency_score (se_recency_config eng) now (dict_get ld ''enquiry_date'' PNone) = Inr r'"
      "contributions_detail eng
          (feature_weight_total (se_weights eng) + opt_get (rc_max_score (se_recency_config eng)) 10) rs r' = Inr cd"
      "sr_recency_score res = r'" "sr_contributions res = sort_by_impact_desc cd"
      "sr_score res =
          (if feature_weight_total (se_weights eng) + opt_get (rc_max_score (se_recency_config eng)) 10 > 0
           then min 100 ((feature_raw_total (se_weights eng) ld + r') /
                  (feature_weight_total (se_weights eng) + opt_get (rc_max_score (se_recency_config eng)) 10) * 100)
           else 0)" by blast
    from h(1) rc enq have r': "r' = r" by simp
    from contributions_detail_recency_mem[OF h(2)] rpos r'
    have "\<lparr>feature = ''recency'', impact = r / total_weight * 100,
                  reason = opt_get (rc_description (se_recency_config eng)) ''''\<rparr> \<in> set cd"
      by (simp add: total_weight_def max_score_def)
    then show ?thesis using h(3,4,5) r'
      by (simp add: set_sort_by_impact_desc total_weight_def max_score_def)
  qed
  have b: "\<exists>res. score eng now ld = Inr res" if nz: "total_weight \<noteq> 0"
  proof -
    obtain rs tr0 tw0 where wl: "weighted_loop (se_weights eng) ld ([], 0, 0) = (rs, tr0, tw0)"
      by (cases "weighted_loop (se_weights eng) ld ([], 0, 0)")
    from weighted_loop_totals[OF wl] nz
    have ok: "tw0 + opt_get (rc_max_score (se_recency_config eng)) 10 \<noteq> 0 \<or>
               ((\<forall>(f, v) \<in> set rs. v \<le> 0) \<and> r \<le> 0)"
      by (simp add: total_weight_def max_score_def)
    from rc enq have "calculate_recency_score (se_recency_config eng) now
        (dict_get ld ''enquiry_date'' PNone) = Inr r" by simp
    from score_returns[OF this wl ok] show ?thesis .
  qed
  show ?thesis
    unfolding Let_def
    using neg big rc a b
    unfolding days_since_def days_decay_def max_score_def r_def total_weight_def
    by blast
qed

text \<open>
  An enquiry dated one microsecond after the clock reading.
\<close>

theorem recency_score_unclamped_above_witness:
  "timedelta_days (- 1 - 0) < 0
   \<and> calculate_recency_score (se_recency_config example_engine) (- 1) (PDate 0) = Inr (32 / 3)
   \<and> (10::real) < 32 / 3
   \<and> (\<exists>res. score example_engine (- 1) (model_dump example_lead) = Inr res
         \<and> sr_recency_score res = 32 / 3
         \<and> sr_score res = 668 / 9
         \<and> \<lparr>feature = ''recency'', impact = 128 / 9, reason = ''Recent enquiry''\<rparr>
             \<in> set (sr_contributions res))"
proof -
  have dd: "0 < opt_get (rc_days_decay (se_recency_config example_engine)) 15"
    and ms: "0 < opt_get (rc_max_score (se_recency_config example_engine)) 10"
    and enq: "dict_get (model_dump example_lead) ''enquiry_date'' PNone = PDate 0"
    and fut: "(- 1 :: int) < 0"
    by (simp_all add: example_defs)
  have c: "opt_get (rc_days_decay (se_recency_config example_engine)) 15 = 15"
    "opt_get (rc_description (se_recency_config example_engine)) [] = ''Recent enquiry''"
    "timedelta_days (- 1 - 0) = - 1"
    by (simp_all add: example_defs timedelta_days_def)
  note t = recency_score_unclamped_above[OF dd ms enq fut, unfolded Let_def c ex_ms ex_tot]
  from t obtain res where res: "score example_engine (- 1) (model_dump example_lead) = Inr res"
    by auto
  from t res show ?thesis unfolding c by simp
qed

subsection \<open>Intent tiers\<close>

text \<open>
  C4: the tier is High from the high threshold on, Medium from the medium threshold on
  and below the high one, and Low otherwise (thresholds default to 80 and 60); under fixed
  thresholds a greater score never has a lower tier.
\<close>

theorem determine_intent_level_monotone:
  "determine_intent_level eng s =
     (if s \<ge> opt_get (it_high (ee_intent_thresholds eng)) 80 then ''High''
      else if s \<ge> opt_get (it_medium (ee_intent_thresholds eng)) 60 then ''Medium''
      else ''Low'')
   \<and> (b < a \<longrightarrow> tier_rank (determine_intent_level eng b) \<le> tier_rank (determine_intent_level eng a))"
  by (simp add: determine_intent_level_def tier_rank_def Let_def)

text \<open>
  The scores 70 and 85 under the thresholds 60 and 80.
\<close>

theorem determine_intent_level_monotone_witness:
  "determine_intent_level example_explanation_engine 70 = ''Medium''
   \<and> determine_intent_level example_explanation_engine 85 = ''High''
   \<and> tier_rank (determine_intent_level example_explanation_engine 70)
       \<le> tier_rank (determine_intent_level example_explanation_engine 85)"
proof -
  have lt: "(70::real) < 85" by simp
  have th: "opt_get (it_high (ee_intent_thresholds example_explanation_engine)) 80 = 80"
    "opt_get (it_medium (ee_intent_thresholds example_explanation_engine)) 60 = 60"
    by (simp_all add: example_explanation_engine_def example_config_def opt_get_def)
  note t = determine_intent_level_monotone[of example_explanation_engine _ 70 85, unfolded th]
  have m: "determine_intent_level example_explanation_engine 70 = ''Medium''"
    using t[of 70] by simp
  have h: "determine_intent_level example_explanation_engine 85 = ''High''"
    using t[of 85] by simp
  have r: "tier_rank (determine_intent_level example_explanation_engine 70)
       \<le> tier_rank (determine_intent_level example_explanation_engine 85)"
    using t[of 70] lt by blast
  from m h r show ?thesis by blast
qed

subsection \<open>Confidence\<close>

lemma filter_truthy_snd:
  "length (filter (\<lambda>(k, v). truthy v) ld) = length (filter truthy (map snd ld))"
  by (induction ld) auto

text \<open>
  C7: the confidence is the blend of the specification with the fixed weights 0.3, 0.4
  and 0.3, unless the lead data hold a truthy \<open>enquiry_date\<close> that is no timestamp, for
  which the subtraction raises; replacing the \<open>confidence_factors\<close> section of the
  configuration by any other leaves the result unchanged.
\<close>

theorem calculate_confidence_fixed_blend:
  "calculate_confidence eng now s contributions lead_data =
     (if enquiry_not_a_timestamp lead_data then Inl TypeError
      else Inr (spec_confidence (spec_data_completeness lead_data)
                  (spec_signal_recency now lead_data) (spec_signal_diversity contributions)))
   \<and> calculate_confidence (eng\<lparr>ee_config := (ee_config eng)\<lparr>cfg_confidence_factors := cf\<rparr>\<rparr>)
        now s contributions lead_data
     = calculate_confidence eng now s contributions lead_data"
proof
  have dc: "data_completeness lead_data = spec_data_completeness lead_data"
    by (auto simp: data_completeness_def spec_data_completeness_def Let_def filter_truthy_snd
        split: option.splits)
  have sr: "signal_recency now lead_data =
     (if enquiry_not_a_timestamp lead_data then Inl TypeError
      else Inr (spec_signal_recency now lead_data))"
    by (auto simp: signal_recency_def enquiry_not_a_timestamp_def spec_signal_recency_def
        enquiry_timestamp_def Let_def split: option.splits pyval.splits)
  show "calculate_confidence eng now s contributions lead_data =
     (if enquiry_not_a_timestamp lead_data then Inl TypeError
      else Inr (spec_confidence (spec_data_completeness lead_data)
                  (spec_signal_recency now lead_data) (spec_signal_diversity contributions)))"
    unfolding calculate_confidence_def Let_def dc sr
    by (simp add: spec_confidence_def spec_signal_diversity_def algebra_simps)
  show "calculate_confidence (eng\<lparr>ee_config := (ee_config eng)\<lparr>cfg_confidence_factors := cf\<rparr>\<rparr>)
        now s contributions lead_data
     = calculate_confidence eng now s contributions lead_data"
    by (simp add: calculate_confidence_def Let_def)
qed

subsection \<open>Construction of the scoring engine\<close>

lemmas fs_defs = init_scoring_engine_def load_config_def example_fs_def example_safe_load_def
  text_without_weights_def config_without_weights_def settings_config_path_def opt_get_def

text \<open>
  C9, as stated: whenever construction succeeds the loaded weights are not empty. A
  document that is a mapping without a \<open>weights\<close> section constructs an engine with no
  weights, and that engine scores a lead from the recency component alone.
\<close>

theorem init_scoring_engine_empty_weights_counterexample:
  "init_scoring_engine example_fs example_safe_load None = Inr engine_without_weights
   \<and> se_weights engine_without_weights = []
   \<and> score engine_without_weights (5 * day) (model_dump example_lead) =
       Inr \<lparr>sr_score = 200 / 3,
            sr_contributions = [\<lparr>feature = ''recency'', impact = 200 / 3, reason = []\<rparr>],
            sr_raw_scores = [],
            sr_recency_score = 20 / 3\<rparr>"
  by (simp add: fs_defs engine_without_weights_def example_defs score_eval)

text \<open>
  C9, amended: construction raises when the file is missing, when the parser rejects
  the text and when the document is not a mapping; for a document that is a mapping it
  succeeds, and the loaded weights are the \<open>weights\<close> section of the document, or empty
  when the document has none.
\<close>

theorem init_scoring_engine_outcomes:
  "(fs (opt_get config_path settings_config_path) = None \<longrightarrow>
      init_scoring_engine fs safe_load config_path = Inl FileNotFoundError)
   \<and> (fs (opt_get config_path settings_config_path) = Some text \<and> safe_load text = Inl e \<longrightarrow>
      init_scoring_engine fs safe_load config_path = Inl e)
   \<and> (fs (opt_get config_path settings_config_path) = Some text \<and> safe_load text = Inr doc
        \<and> (\<forall>cfg. doc \<noteq> YMapping cfg) \<longrightarrow>
      init_scoring_engine fs safe_load config_path = Inl AttributeError)
   \<and> (fs (opt_get config_path settings_config_path) = Some text \<and> safe_load text = Inr (YMapping cfg) \<longrightarrow>
      init_scoring_engine fs safe_load config_path =
        Inr \<lparr>se_config = cfg,
             se_weights = (case cfg_weights cfg of None \<Rightarrow> [] | Some ws \<Rightarrow> ws),
             se_recency_config =
               (case cfg_recency cfg of None \<Rightarrow> empty_recency_config | Some rc \<Rightarrow> rc)\<rparr>)"
  by (cases doc) (auto simp: init_scoring_engine_def load_config_def opt_get_def)

text \<open>
  A missing file, a malformed file, an empty file and a mapping without weights.
\<close>

theorem init_scoring_engine_outcomes_witness:
  "init_scoring_engine example_fs example_safe_load (Some ''missing.yaml'') = Inl FileNotFoundError
   \<and> init_scoring_engine example_fs example_safe_load (Some ''broken.yaml'') = Inl YAMLError
   \<and> init_scoring_engine example_fs example_safe_load (Some ''empty.yaml'') = Inl AttributeError
   \<and> init_scoring_engine example_fs example_safe_load None =
        Inr \<lparr>se_config = config_without_weights, se_weights = [],
             se_recency_config =
               \<lparr>rc_days_decay = Some 15, rc_max_score = Some 10, rc_description = None\<rparr>\<rparr>"
proof -
  have a: "example_fs (opt_get (Some ''missing.yaml'') settings_config_path) = None"
    by (simp add: fs_defs)
  have b: "example_fs (opt_get (Some ''broken.yaml'') settings_config_path) = Some ''weights: [''
           \<and> example_safe_load ''weights: ['' = Inl YAMLError"
    by (simp add: fs_defs)
  have c: "example_fs (opt_get (Some ''empty.yaml'') settings_config_path) = Some []
           \<and> example_safe_load [] = Inr YNull \<and> (\<forall>cfg. YNull \<noteq> YMapping cfg)"
    by (simp add: fs_defs)
  have d: "example_fs (opt_get None settings_config_path) = Some text_without_weights
           \<and> example_safe_load text_without_weights = Inr (YMapping config_without_weights)"
    by (simp add: fs_defs)
  have w: "cfg_weights config_without_weights = None"
    "cfg_recency config_without_weights =
       Some \<lparr>rc_days_decay = Some 15, rc_max_score = Some 10, rc_description = None\<rparr>"
    by (simp_all add: config_without_weights_def)
  from init_scoring_engine_outcomes[of example_fs "Some ''missing.yaml''" example_safe_load] a
  have 1: "init_scoring_engine example_fs example_safe_load (Some ''missing.yaml'') = Inl FileNotFoundError"
    by blast
  from init_scoring_engine_outcomes[of example_fs "Some ''broken.yaml''" example_safe_load
        "''weights: [''" YAMLError] b
  have 2: "init_scoring_engine example_fs example_safe_load (Some ''broken.yaml'') = Inl YAMLError"
    by blast
  from init_scoring_engine_outcomes[of example_fs "Some ''empty.yaml''" example_safe_load
        "[]" _ YNull] c
  have 3: "init_scoring_engine example_fs example_safe_load (Some ''empty.yaml'') = Inl AttributeError"
    by blast
  from init_scoring_engine_outcomes[of example_fs None example_safe_load
        text_without_weights _ _ config_without_weights] d
  have 4: "init_scoring_engine example_fs example_safe_load None =
        Inr \<lparr>se_config = config_without_weights, se_weights = [],
             se_recency_config =
               \<lparr>rc_days_decay = Some 15, rc_max_score = Some 10, rc_description = None\<rparr>\<rparr>"
    unfolding w by simp
  from 1 2 3 4 show ?thesis by blast
qed

subsection \<open>Scoring the same email twice\<close>

lemma foldl_setattr_model_dump:
  "foldl setattr_lead l (model_dump li) =
     l\<lparr>l_email := li_email li, l_name := li_name li, l_company := li_company li,
       l_demo_requested := li_demo_requested li, l_registration := li_registration li,
       l_enquiry_call_whatsapp := li_enquiry_call_whatsapp li,
       l_enquiry_date := li_enquiry_date li, l_pricing_compared := li_pricing_compared li,
       l_lead_through_events := li_lead_through_events li,
       l_lead_through_call := li_lead_through_call li,
       l_lead_through_referral := li_lead_through_referral li\<rparr>"
  by (cases "li_company li"; cases "li_enquiry_date li") (simp_all add: model_dump_def)

lemma find_update_first:
  assumes "\<And>l. l_email l = email \<Longrightarrow> l_email (f l) = email"
  shows "find (\<lambda>l. l_email l = email) (update_first email f ls) =
         map_option f (find (\<lambda>l. l_email l = email) ls)"
  using assms by (induction ls) auto

lemma filter_update_first:
  assumes "\<And>l. l_email l = email \<Longrightarrow> l_email (f l) = email"
  shows "length (filter (\<lambda>l. l_email l = email) (update_first email f ls)) =
         length (filter (\<lambda>l. l_email l = email) ls)"
  using assms by (induction ls) auto

lemma find_None_filter: "find P ls = None \<Longrightarrow> filter P ls = []"
  by (induction ls) (auto split: if_splits)

lemma find_Some_filter: "find P ls = Some x \<Longrightarrow> filter P ls \<noteq> []"
  by (induction ls) (auto split: if_splits)

lemma find_snoc: "find P (xs @ [y]) = (case find P xs of None \<Rightarrow> (if P y then Some y else None) | Some x \<Rightarrow> Some x)"
  by (induction xs) auto

lemma persist_lead_row:
  "\<exists>row. find_by_email (fst (persist_lead db now li r)) (li_email li) = Some row
       \<and> stored_fields row = written_fields li r"
proof (cases "find_by_email db (li_email li)")
  case None
  obtain a b c where r: "r = (a, b, c)" by (cases r)
  from None have "find (\<lambda>l. l_email l = li_email li) (db_leads db) = None"
    by (simp add: find_by_email_def)
  then show ?thesis using None
    by (simp add: persist_lead_def r find_by_email_def find_snoc Let_def stored_fields_def written_fields_def)
next
  case (Some existing)
  obtain a b c where r: "r = (a, b, c)" by (cases r)
  from Some have f: "find (\<lambda>l. l_email l = li_email li) (db_leads db) = Some existing"
    by (simp add: find_by_email_def)
  show ?thesis using Some f
    by (simp add: persist_lead_def r find_by_email_def Let_def find_update_first
        foldl_setattr_model_dump stored_fields_def written_fields_def)
qed

lemma persist_lead_rows:
  "rows_of_email (fst (persist_lead db now li r)) (li_email li) =
     max 1 (rows_of_email db (li_email li))"
proof (cases "find_by_email db (li_email li)")
  case None
  obtain a b c where r: "r = (a, b, c)" by (cases r)
  from None have "filter (\<lambda>l. l_email l = li_email li) (db_leads db) = []"
    by (simp add: find_by_email_def find_None_filter)
  then show ?thesis using None
    by (simp add: persist_lead_def r rows_of_email_def Let_def)
next
  case (Some existing)
  obtain a b c where r: "r = (a, b, c)" by (cases r)
  from Some have "filter (\<lambda>l. l_email l = li_email li) (db_leads db) \<noteq> []"
    by (simp add: find_by_email_def find_Some_filter)
  then have "1 \<le> length (filter (\<lambda>l. l_email l = li_email li) (db_leads db))"
    by (cases "filter (\<lambda>l. l_email l = li_email li) (db_leads db)") simp_all
  then have "max 1 (rows_of_email db (li_email li)) = rows_of_email db (li_email li)"
    by (simp add: rows_of_email_def max_def)
  then show ?thesis using Some
    by (simp add: persist_lead_def r rows_of_email_def Let_def filter_update_first
        foldl_setattr_model_dump del: One_nat_def)
qed

lemma fst_score_lead:
  "fst (score_lead svc now db li) =
     (case run_engines svc now li of Inl e \<Rightarrow> db | Inr r \<Rightarrow> fst (persist_lead db now li r))"
  by (auto simp: score_lead_def split: sum.splits prod.splits)

text \<open>
  C8: when the engines succeed on a payload at the time of a second call, the table
  after two calls for that payload holds a row for the email whose feature fields and
  scoring fields are those of the table after that call alone, namely the fields one write
  of the payload sets; the number of rows of the email is the same in both tables. The
  first call may have been made at any time and may have raised.
\<close>

theorem score_lead_twice_overwrites:
  assumes "run_engines svc t2 li = Inr r"
  shows "\<exists>row2 row1.
           find_by_email (fst (score_lead svc t2 (fst (score_lead svc t1 db li)) li)) (li_email li)
             = Some row2
         \<and> find_by_email (fst (score_lead svc t2 db li)) (li_email li) = Some row1
         \<and> stored_fields row2 = stored_fields row1
         \<and> stored_fields row2 = written_fields li r
         \<and> rows_of_email (fst (score_lead svc t2 (fst (score_lead svc t1 db li)) li)) (li_email li)
             = rows_of_email (fst (score_lead svc t2 db li)) (li_email li)"
proof -
  define db1 where "db1 = fst (score_lead svc t1 db li)"
  have s2: "fst (score_lead svc t2 db1 li) = fst (persist_lead db1 t2 li r)"
    and s1: "fst (score_lead svc t2 db li) = fst (persist_lead db t2 li r)"
    using assms by (simp_all add: fst_score_lead)
  from persist_lead_row[of db1 t2 li r] obtain row2 where
    row2: "find_by_email (fst (persist_lead db1 t2 li r)) (li_email li) = Some row2"
          "stored_fields row2 = written_fields li r" by blast
  from persist_lead_row[of db t2 li r] obtain row1 where
    row1: "find_by_email (fst (persist_lead db t2 li r)) (li_email li) = Some row1"
          "stored_fields row1 = written_fields li r" by blast
  have "rows_of_email db1 (li_email li) = rows_of_email db (li_email li)
        \<or> rows_of_email db1 (li_email li) = max 1 (rows_of_email db (li_email li))"
    unfolding db1_def fst_score_lead by (cases "run_engines svc t1 li") (simp_all add: persist_lead_rows)
  then have "rows_of_email (fst (persist_lead db1 t2 li r)) (li_email li)
           = rows_of_email (fst (persist_lead db t2 li r)) (li_email li)"
    by (auto simp: persist_lead_rows)
  with row2 row1 show ?thesis unfolding db1_def[symmetric] s2 s1 by auto
qed

lemma run_engines_example:
  "\<exists>r. run_engines example_service (20 * day) example_lead = Inr r \<and> sr_score (fst r) = 60"
  by (simp add: run_engines_def example_service_def example_explanation_engine_def
      example_action_engine_def explain_score_def calculate_confidence_def signal_recency_def
      data_completeness_def determine_intent_level_def example_defs score_eval get_action_def
      get_action_key_def)

text \<open>
  The example lead scored on day 5 and again on day 20, against one call on day 20.
\<close>

theorem score_lead_twice_overwrites_witness:
  "\<exists>row2 row1.
      find_by_email (fst (score_lead example_service (20 * day)
         (fst (score_lead example_service (5 * day) empty_db example_lead)) example_lead))
         (li_email example_lead) = Some row2
    \<and> find_by_email (fst (score_lead example_service (20 * day) empty_db example_lead))
         (li_email example_lead) = Some row1
    \<and> stored_fields row2 = stored_fields row1
    \<and> l_score row2 = 60
    \<and> rows_of_email (fst (score_lead example_service (20 * day)
         (fst (score_lead example_service (5 * day) empty_db example_lead)) example_lead))
         (li_email example_lead)
       = rows_of_email (fst (score_lead example_service (20 * day) empty_db example_lead))
         (li_email example_lead)"
proof -
  from run_engines_example obtain r where
    r: "run_engines example_service (20 * day) example_lead = Inr r" "sr_score (fst r) = 60" by blast
  from score_lead_twice_overwrites[OF r(1), of "5 * day" empty_db] obtain row2 row1 where
    h: "find_by_email (fst (score_lead example_service (20 * day)
         (fst (score_lead example_service (5 * day) empty_db example_lead)) example_lead))
         (li_email example_lead) = Some row2"
       "find_by_email (fst (score_lead example_service (20 * day) empty_db example_lead))
         (li_email example_lead) = Some row1"
       "stored_fields row2 = stored_fields row1"
       "stored_fields row2 = written_fields example_lead r"
       "rows_of_email (fst (score_lead example_service (20 * day)
         (fst (score_lead example_service (5 * day) empty_db example_lead)) example_lead))
         (li_email example_lead)
       = rows_of_email (fst (score_lead example_service (20 * day) empty_db example_lead))
         (li_email example_lead)" by blast
  from h(4) r(2) have "l_score row2 = 60"
    by (cases r) (auto simp: stored_fields_def written_fields_def)
  with h show ?thesis by blast
qed

subsection \<open>Sum of the impacts\<close>

text \<open>
  C2 claims that the impacts of a result sum to at most 100. For the example
  configuration and a lead with all three features whose enquiry is dated one microsecond
  after the clock reading, the recency score is 32/3, above the budget of 10, and the
  impacts sum to 908/9, which is more than 100.
\<close>

theorem score_impacts_exceed_100:
  "(case score example_engine (- 1) (model_dump (example_lead\<lparr>li_registration := True\<rparr>)) of
      Inl e \<Rightarrow> None
    | Inr res \<Rightarrow> Some (sum_list (map impact (sr_contributions res)), sr_recency_score res))
   = Some (908 / 9, 32 / 3)
   \<and> (100::real) < 908 / 9"
  by (simp add: score_future)

subsection \<open>Bracket selection\<close>

text \<open>
  C5, as stated: every score of at least 80 selects the bracket named \<open>80_100\<close>. The key
  returned by the engine for the score 80 is a different string.
\<close>

theorem get_action_key_name_counterexample:
  "get_action_key 80 \<noteq> ''80_100''"
  by (simp add: get_action_key_def)

text \<open>
  C5, amended: the bracket key is a function of the score alone with inclusive lower
  bounds 80, 60 and 40, and the keys are \<open>score_80_100\<close>, \<open>score_60_79\<close>,
  \<open>score_40_59\<close> and \<open>score_below_40\<close>; in particular 79.999 selects
  \<open>score_60_79\<close> and 80 selects \<open>score_80_100\<close>.
\<close>

theorem get_action_key_brackets:
  "get_action_key s =
     (if 80 \<le> s then ''score_80_100''
      else if 60 \<le> s \<and> s < 80 then ''score_60_79''
      else if 40 \<le> s \<and> s < 60 then ''score_40_59''
      else ''score_below_40'')
   \<and> get_action_key 80 = ''score_80_100''
   \<and> get_action_key (79999 / 1000) = ''score_60_79''"
  by (simp add: get_action_key_def)

end
